theory Spec2Isabelle
  imports Complex_Main
begin

section \<open>Values, errors and records of the scraper\<close>

text \<open>
  The program (\<^verbatim>\<open>src/Scrapping.py\<close>) handles the parsed JSON body of a reply and
  the flat dictionaries it builds from it. A value is one of Python's JSON types; a
  double is carried by the rational number it denotes (only its being zero is ever
  inspected). A dictionary is an association list with string keys, read with
  \<open>map_of\<close>, so that the order of the keys is kept as Python keeps it.
\<close>

datatype pyval =
    PNone
  | PBool bool
  | PInt int
  | PFloat rat
  | PStr string
  | PList "pyval list"
  | PDict "(string \<times> pyval) list"

text \<open>Every exception of the source is a value; \<open>KeyError\<close> carries the key.\<close>

datatype error =
    KeyError string
  | TypeError
  | ValueError
  | AttributeError
  | OSError
  | OverflowError
  | RequestException
  | JSONDecodeError

type_synonym probe = "(string \<times> pyval) list"

text \<open>Sequencing of fallible steps: the first exception ends the computation.\<close>

definition bind_err :: "error + 'a \<Rightarrow> ('a \<Rightarrow> error + 'b) \<Rightarrow> error + 'b" where
  "bind_err m f = (case m of Inl e \<Rightarrow> Inl e | Inr v \<Rightarrow> f v)"

text \<open>\<^verbatim>\<open>if v:\<close> --- Python's truth value of a JSON value.\<close>

fun truthy :: "pyval \<Rightarrow> bool" where
  "truthy PNone = False"
| "truthy (PBool b) = b"
| "truthy (PInt i) = (i \<noteq> 0)"
| "truthy (PFloat r) = (r \<noteq> 0)"
| "truthy (PStr s) = (s \<noteq> [])"
| "truthy (PList xs) = (xs \<noteq> [])"
| "truthy (PDict kvs) = (kvs \<noteq> [])"

text \<open>\<^verbatim>\<open>d[key]\<close> on a dictionary: \<open>KeyError\<close> when the key is missing.\<close>

definition getitem :: "probe \<Rightarrow> string \<Rightarrow> error + pyval" where
  "getitem d k = (case map_of d k of None \<Rightarrow> Inl (KeyError k) | Some v \<Rightarrow> Inr v)"

section \<open>Naive datetimes\<close>

text \<open>
  \<^verbatim>\<open>datetime.strptime\<close> gives a naive datetime; two of them compare field by field,
  from the year down to the second.
\<close>

record datetime =
  year :: nat
  month :: nat
  day :: nat
  hour :: nat
  minute :: nat
  second :: nat

definition dt_less :: "datetime \<Rightarrow> datetime \<Rightarrow> bool" where
  "dt_less a b =
     (year a < year b \<or> (year a = year b \<and>
     (month a < month b \<or> (month a = month b \<and>
     (day a < day b \<or> (day a = day b \<and>
     (hour a < hour b \<or> (hour a = hour b \<and>
     (minute a < minute b \<or> (minute a = minute b \<and>
      second a < second b))))))))))"

section \<open>The record filter\<close>

text \<open>
  \<^verbatim>\<open>filter_probes(probes, country, connected, first_connected_after, last_connected_after)\<close>.
  The library call \<^verbatim>\<open>datetime.strptime(s, '%Y-%m-%d %H:%M:%S')\<close> is the parameter \<open>strptime\<close>
  (\<open>None\<close> is its \<open>ValueError\<close>). Each of the four tests below tells whether the loop
  body executes \<^verbatim>\<open>continue\<close> at that \<^verbatim>\<open>if\<close>.
\<close>

definition skip_country :: "string option \<Rightarrow> probe \<Rightarrow> error + bool" where
  "skip_country country probe =
     (case country of
        None \<Rightarrow> Inr False
      | Some c \<Rightarrow>
          if c = [] then Inr False
          else bind_err (getitem probe ''Pays'') (\<lambda>v. Inr (v \<noteq> PStr c)))"

definition skip_connected :: "bool option \<Rightarrow> probe \<Rightarrow> error + bool" where
  "skip_connected connected_flag probe =
     (case connected_flag of
        None \<Rightarrow> Inr False
      | Some b \<Rightarrow>
          bind_err (getitem probe ''Status'') (\<lambda>v. Inr ((v = PStr ''Connected'') \<noteq> b)))"

definition skip_date ::
  "(string \<Rightarrow> datetime option) \<Rightarrow> datetime option \<Rightarrow> string \<Rightarrow> probe \<Rightarrow> error + bool" where
  "skip_date strptime after key probe =
     (case after of
        None \<Rightarrow> Inr False
      | Some threshold \<Rightarrow>
          bind_err (getitem probe key) (\<lambda>v.
            if v \<noteq> PStr ''N/A'' then
              (case v of
                 PStr s \<Rightarrow>
                   (case strptime s of
                      None \<Rightarrow> Inl ValueError
                    | Some t \<Rightarrow> Inr (dt_less t threshold))
               | _ \<Rightarrow> Inl TypeError)
            else Inr False))"

text \<open>One pass of the loop body: \<open>Inr True\<close> when the record reaches \<^verbatim>\<open>filtered.append\<close>.\<close>

definition keep_probe ::
  "(string \<Rightarrow> datetime option) \<Rightarrow> string option \<Rightarrow> bool option \<Rightarrow> datetime option
     \<Rightarrow> datetime option \<Rightarrow> probe \<Rightarrow> error + bool" where
  "keep_probe strptime country connected_flag first_connected_after last_connected_after probe =
     bind_err (skip_country country probe) (\<lambda>s1.
       if s1 then Inr False else
     bind_err (skip_connected connected_flag probe) (\<lambda>s2.
       if s2 then Inr False else
     bind_err (skip_date strptime first_connected_after ''First Connected'' probe) (\<lambda>s3.
       if s3 then Inr False else
     bind_err (skip_date strptime last_connected_after ''Last Connected'' probe) (\<lambda>s4.
       if s4 then Inr False else Inr True))))"

fun filter_loop ::
  "(string \<Rightarrow> datetime option) \<Rightarrow> string option \<Rightarrow> bool option \<Rightarrow> datetime option
     \<Rightarrow> datetime option \<Rightarrow> probe list \<Rightarrow> probe list \<Rightarrow> error + probe list" where
  "filter_loop strptime country connected_flag fca lca filtered [] = Inr filtered"
| "filter_loop strptime country connected_flag fca lca filtered (probe # rest) =
     (case keep_probe strptime country connected_flag fca lca probe of
        Inl e \<Rightarrow> Inl e
      | Inr keep \<Rightarrow>
          filter_loop strptime country connected_flag fca lca
            (if keep then filtered @ [probe] else filtered) rest)"

definition filter_probes ::
  "(string \<Rightarrow> datetime option) \<Rightarrow> probe list \<Rightarrow> string option \<Rightarrow> bool option
     \<Rightarrow> datetime option \<Rightarrow> datetime option \<Rightarrow> error + probe list" where
  "filter_probes strptime probes country connected_flag first_connected_after last_connected_after =
     filter_loop strptime country connected_flag first_connected_after last_connected_after [] probes"

text \<open>
  The conjunction of two sets of criteria: a criterion supplied in either set is
  supplied in the union.
\<close>

definition either :: "'a option \<Rightarrow> 'a option \<Rightarrow> 'a option" where
  "either a b = (case a of None \<Rightarrow> b | Some x \<Rightarrow> Some x)"

text \<open>
  What an active date threshold lets through, read off the source: the field is the
  marker \<^verbatim>\<open>"N/A"\<close>, or it is a string that parses to an instant not earlier than the
  threshold.
\<close>

definition passes_date ::
  "(string \<Rightarrow> datetime option) \<Rightarrow> datetime \<Rightarrow> string \<Rightarrow> probe \<Rightarrow> bool" where
  "passes_date strptime threshold key p =
     (case map_of p key of
        Some (PStr s) \<Rightarrow>
          s = ''N/A''
          \<or> (case strptime s of None \<Rightarrow> False | Some d \<Rightarrow> \<not> dt_less d threshold)
      | _ \<Rightarrow> False)"

text \<open>
  The records the fetcher builds: the keys the filter reads are present, and each date
  field is a string, the marker or one that the parser accepts. On a list of such records
  the filter raises nothing.
\<close>

definition date_ok :: "(string \<Rightarrow> datetime option) \<Rightarrow> string \<Rightarrow> probe \<Rightarrow> bool" where
  "date_ok strptime key p =
     (case map_of p key of
        Some (PStr s) \<Rightarrow> s = ''N/A'' \<or> strptime s \<noteq> None
      | _ \<Rightarrow> False)"

definition well_formed :: "(string \<Rightarrow> datetime option) \<Rightarrow> probe \<Rightarrow> bool" where
  "well_formed strptime p =
     (map_of p ''Pays'' \<noteq> None \<and> map_of p ''Status'' \<noteq> None
      \<and> date_ok strptime ''First Connected'' p \<and> date_ok strptime ''Last Connected'' p)"

subsection \<open>A parser for the timestamps the fetcher writes\<close>

text \<open>
  \<open>strptime_padded\<close> reads the zero-padded shape \<^verbatim>\<open>YYYY-MM-DD HH:MM:SS\<close> that
  \<^verbatim>\<open>strftime('%Y-%m-%d %H:%M:%S')\<close> writes, and checks the calendar as the library does.
  The library also accepts unpadded fields; this parser does not, and it is used only to
  run the filter on concrete records of the padded shape.
\<close>

definition digit_val :: "char \<Rightarrow> nat option" where
  "digit_val c =
     (let n = (of_char c :: nat) in if 48 \<le> n \<and> n \<le> 57 then Some (n - 48) else None)"

fun number_of :: "nat \<Rightarrow> string \<Rightarrow> nat option" where
  "number_of acc [] = Some acc"
| "number_of acc (c # cs) =
     (case digit_val c of None \<Rightarrow> None | Some d \<Rightarrow> number_of (10 * acc + d) cs)"

definition leap_year :: "nat \<Rightarrow> bool" where
  "leap_year y = (y mod 4 = 0 \<and> (y mod 100 \<noteq> 0 \<or> y mod 400 = 0))"

definition days_in_month :: "nat \<Rightarrow> nat \<Rightarrow> nat" where
  "days_in_month y m =
     (if m = 2 then (if leap_year y then 29 else 28)
      else if m = 4 \<or> m = 6 \<or> m = 9 \<or> m = 11 then 30 else 31)"

definition strptime_padded :: "string \<Rightarrow> datetime option" where
  "strptime_padded s =
     (if length s = 19 \<and> s ! 4 = CHR ''-'' \<and> s ! 7 = CHR ''-'' \<and> s ! 10 = CHR '' ''
           \<and> s ! 13 = CHR '':'' \<and> s ! 16 = CHR '':'' then
        (case (number_of 0 (take 4 s), number_of 0 (take 2 (drop 5 s)),
               number_of 0 (take 2 (drop 8 s)), number_of 0 (take 2 (drop 11 s)),
               number_of 0 (take 2 (drop 14 s)), number_of 0 (take 2 (drop 17 s))) of
           (Some y, Some m, Some d, Some h, Some mi, Some se) \<Rightarrow>
             if 1 \<le> y \<and> 1 \<le> m \<and> m \<le> 12 \<and> 1 \<le> d \<and> d \<le> days_in_month y m
                  \<and> h < 24 \<and> mi < 60 \<and> se < 60
             then Some \<lparr>year = y, month = m, day = d, hour = h, minute = mi, second = se\<rparr>
             else None
         | _ \<Rightarrow> None)
      else None)"

subsection \<open>The record set of the concrete scenarios\<close>

text \<open>
  The two records of the scenarios, with the keys and in the key order of the fetcher;
  the fields a scenario leaves open hold the marker.
\<close>

definition scenario_probe_1 :: probe where
  "scenario_probe_1 =
     [(''ID'', PInt 1), (''IPv4'', PStr ''N/A''), (''ASN'', PStr ''N/A''), (''Pays'', PStr ''FR''),
      (''Longitude'', PStr ''N/A''), (''Latitude'', PStr ''N/A''),
      (''Status'', PStr ''Connected''), (''First Connected'', PStr ''2020-01-01 00:00:00''),
      (''Last Connected'', PStr ''N/A''), (''Tags'', PStr ''N/A'')]"

definition scenario_probe_2 :: probe where
  "scenario_probe_2 =
     [(''ID'', PInt 2), (''IPv4'', PStr ''N/A''), (''ASN'', PStr ''N/A''), (''Pays'', PStr ''US''),
      (''Longitude'', PStr ''N/A''), (''Latitude'', PStr ''N/A''),
      (''Status'', PStr ''Disconnected''), (''First Connected'', PStr ''N/A''),
      (''Last Connected'', PStr ''N/A''), (''Tags'', PStr ''N/A'')]"

text \<open>\<^verbatim>\<open>datetime.strptime("2021-01-01", "%Y-%m-%d")\<close>, the threshold as \<^verbatim>\<open>main\<close> builds it.\<close>

definition date_2021_01_01 :: datetime where
  "date_2021_01_01 = \<lparr>year = 2021, month = 1, day = 1, hour = 0, minute = 0, second = 0\<rparr>"

section \<open>The probe fetcher\<close>

text \<open>
  \<^verbatim>\<open>get_probe_info(probe_id)\<close>. The network is a parameter: \<open>http\<close> maps the request
  URL to the reply of \<^verbatim>\<open>requests.get\<close>, or to the exception it raises; a reply carries
  its status code and what \<^verbatim>\<open>response.json()\<close> gives. The library call
  \<^verbatim>\<open>datetime.fromtimestamp(ts, tz).strftime('%Y-%m-%d %H:%M:%S')\<close> is the parameter
  \<open>strftime_ts\<close>.
\<close>

record response =
  status_code :: int
  json :: "error + pyval"

text \<open>\<^verbatim>\<open>str(n)\<close> for an integer, as \<^verbatim>\<open>API_URL.format(probe_id)\<close> writes it.\<close>

fun digits :: "nat \<Rightarrow> string" where
  "digits n =
     (if n < 10 then [char_of (48 + n)] else digits (n div 10) @ [char_of (48 + n mod 10)])"

declare digits.simps [simp del]

definition str_int :: "int \<Rightarrow> string" where
  "str_int i = (if i < 0 then CHR ''-'' # digits (nat (- i)) else digits (nat i))"

definition API_URL :: "int \<Rightarrow> string" where
  "API_URL probe_id = ''https://atlas.ripe.net/api/v2/probes/'' @ str_int probe_id"

text \<open>\<^verbatim>\<open>data.get(key, default)\<close>: only a dictionary has the method.\<close>

definition py_get :: "pyval \<Rightarrow> string \<Rightarrow> pyval \<Rightarrow> error + pyval" where
  "py_get data key dflt =
     (case data of
        PDict kvs \<Rightarrow> Inr (case map_of kvs key of None \<Rightarrow> dflt | Some v \<Rightarrow> v)
      | _ \<Rightarrow> Inl AttributeError)"

text \<open>\<^verbatim>\<open>sub in s\<close> on strings.\<close>

fun starts_with :: "string \<Rightarrow> string \<Rightarrow> bool" where
  "starts_with [] s = True"
| "starts_with (c # cs) [] = False"
| "starts_with (c # cs) (d # ds) = (c = d \<and> starts_with cs ds)"

fun str_contains :: "string \<Rightarrow> string \<Rightarrow> bool" where
  "str_contains sub [] = (sub = [])"
| "str_contains sub (d # ds) = (starts_with sub (d # ds) \<or> str_contains sub ds)"

text \<open>
  \<^verbatim>\<open>key in v\<close>: a key of a dictionary, an element of a list, a substring of a string;
  the other values are not iterable.
\<close>

definition py_contains :: "string \<Rightarrow> pyval \<Rightarrow> error + bool" where
  "py_contains key v =
     (case v of
        PDict kvs \<Rightarrow> Inr (map_of kvs key \<noteq> None)
      | PList xs \<Rightarrow> Inr (PStr key \<in> set xs)
      | PStr s \<Rightarrow> Inr (str_contains key s)
      | _ \<Rightarrow> Inl TypeError)"

text \<open>\<^verbatim>\<open>v[key]\<close> with a string key: only a dictionary takes it.\<close>

definition py_subscript :: "pyval \<Rightarrow> string \<Rightarrow> error + pyval" where
  "py_subscript v key = (case v of PDict kvs \<Rightarrow> getitem kvs key | _ \<Rightarrow> Inl TypeError)"

text \<open>Iterating a value: the elements of a list, the keys of a dictionary, the characters of a string.\<close>

definition py_iter :: "pyval \<Rightarrow> error + pyval list" where
  "py_iter v =
     (case v of
        PList xs \<Rightarrow> Inr xs
      | PDict kvs \<Rightarrow> Inr (map (\<lambda>kv. PStr (fst kv)) kvs)
      | PStr s \<Rightarrow> Inr (map (\<lambda>c. PStr [c]) s)
      | _ \<Rightarrow> Inl TypeError)"

text \<open>\<^verbatim>\<open>longitude, latitude = v\<close>: exactly two items, else \<open>ValueError\<close>.\<close>

definition unpack2 :: "pyval \<Rightarrow> error + pyval \<times> pyval" where
  "unpack2 v =
     bind_err (py_iter v) (\<lambda>items.
       case items of [a, b] \<Rightarrow> Inr (a, b) | _ \<Rightarrow> Inl ValueError)"

text \<open>
  The geometry block: \<^verbatim>\<open>geometry = data.get("geometry")\<close>, both coordinates \<^verbatim>\<open>"N/A"\<close>
  unless \<^verbatim>\<open>geometry and "coordinates" in geometry\<close>.
\<close>

definition coordinates :: "pyval \<Rightarrow> error + pyval \<times> pyval" where
  "coordinates data =
     bind_err (py_get data ''geometry'' PNone) (\<lambda>geometry.
       if truthy geometry then
         bind_err (py_contains ''coordinates'' geometry) (\<lambda>present.
           if present then
             bind_err (py_subscript geometry ''coordinates'') unpack2
           else Inr (PStr ''N/A'', PStr ''N/A''))
       else Inr (PStr ''N/A'', PStr ''N/A''))"

definition format_timestamp :: "(pyval \<Rightarrow> error + string) \<Rightarrow> pyval \<Rightarrow> error + pyval" where
  "format_timestamp strftime_ts ts =
     (if truthy ts then bind_err (strftime_ts ts) (\<lambda>s. Inr (PStr s)) else Inr (PStr ''N/A''))"

text \<open>The generator \<^verbatim>\<open>tag["name"] for tag in tags\<close>, run to its first exception.\<close>

fun tag_names :: "pyval list \<Rightarrow> error + pyval list" where
  "tag_names [] = Inr []"
| "tag_names (tag # rest) =
     bind_err (py_subscript tag ''name'') (\<lambda>n.
       bind_err (tag_names rest) (\<lambda>ns. Inr (n # ns)))"

fun join_strs :: "string \<Rightarrow> string list \<Rightarrow> string" where
  "join_strs sep [] = []"
| "join_strs sep [s] = s"
| "join_strs sep (s # t # rest) = s @ sep @ join_strs sep (t # rest)"

fun str_items :: "pyval list \<Rightarrow> error + string list" where
  "str_items [] = Inr []"
| "str_items (PStr s # rest) = bind_err (str_items rest) (\<lambda>ss. Inr (s # ss))"
| "str_items (v # rest) = Inl TypeError"

text \<open>\<^verbatim>\<open>", ".join(names)\<close>: every item must be a string.\<close>

definition py_join :: "string \<Rightarrow> pyval list \<Rightarrow> error + pyval" where
  "py_join sep names = bind_err (str_items names) (\<lambda>ss. Inr (PStr (join_strs sep ss)))"

definition tags_field :: "pyval \<Rightarrow> error + pyval" where
  "tags_field data =
     bind_err (py_get data ''tags'' PNone) (\<lambda>t.
       if truthy t then
         bind_err (py_get data ''tags'' (PList [])) (\<lambda>tags.
         bind_err (py_iter tags) (\<lambda>items.
         bind_err (tag_names items) (\<lambda>names. py_join '', '' names)))
       else Inr (PStr ''N/A''))"

text \<open>The body of the \<^verbatim>\<open>status_code == 200\<close> branch, on the parsed reply.\<close>

definition probe_record :: "(pyval \<Rightarrow> error + string) \<Rightarrow> pyval \<Rightarrow> error + probe" where
  "probe_record strftime_ts data =
     bind_err (coordinates data) (\<lambda>(longitude, latitude).
     bind_err (py_get data ''id'' (PStr ''N/A'')) (\<lambda>v_id.
     bind_err (py_get data ''address_v4'' (PStr ''N/A'')) (\<lambda>v_ipv4.
     bind_err (py_get data ''asn_v4'' (PStr ''N/A'')) (\<lambda>v_asn.
     bind_err (py_get data ''country_code'' (PStr ''N/A'')) (\<lambda>v_pays.
     bind_err (bind_err (py_get data ''status'' (PDict []))
                 (\<lambda>st. py_get st ''name'' (PStr ''Unknown''))) (\<lambda>v_status.
     bind_err (bind_err (py_get data ''first_connected'' PNone)
                 (format_timestamp strftime_ts)) (\<lambda>v_first.
     bind_err (bind_err (py_get data ''last_connected'' PNone)
                 (format_timestamp strftime_ts)) (\<lambda>v_last.
     bind_err (tags_field data) (\<lambda>v_tags.
       Inr [(''ID'', v_id), (''IPv4'', v_ipv4), (''ASN'', v_asn), (''Pays'', v_pays),
            (''Longitude'', longitude), (''Latitude'', latitude), (''Status'', v_status),
            (''First Connected'', v_first), (''Last Connected'', v_last),
            (''Tags'', v_tags)])))))))))"

definition get_probe_info ::
  "(string \<Rightarrow> error + response) \<Rightarrow> (pyval \<Rightarrow> error + string) \<Rightarrow> int \<Rightarrow> error + probe option" where
  "get_probe_info http strftime_ts probe_id =
     bind_err (http (API_URL probe_id)) (\<lambda>response.
       if status_code response = 200 then
         bind_err (json response) (\<lambda>data.
         bind_err (probe_record strftime_ts data) (\<lambda>r. Inr (Some r)))
       else Inr None)"

text \<open>
  The loop of \<^verbatim>\<open>main\<close> over \<^verbatim>\<open>range(start_id, end_id + 1)\<close>: a record is appended when
  \<^verbatim>\<open>if info:\<close> holds, that is when the fetcher returned a non-empty dictionary. The pause
  between two requests changes no value and is left out.
\<close>

fun collect_loop ::
  "(string \<Rightarrow> error + response) \<Rightarrow> (pyval \<Rightarrow> error + string) \<Rightarrow> probe list \<Rightarrow> int list
     \<Rightarrow> error + probe list" where
  "collect_loop http strftime_ts probes [] = Inr probes"
| "collect_loop http strftime_ts probes (probe_id # rest) =
     bind_err (get_probe_info http strftime_ts probe_id) (\<lambda>info.
       collect_loop http strftime_ts
         (case info of
            None \<Rightarrow> probes
          | Some d \<Rightarrow> if d \<noteq> [] then probes @ [d] else probes)
         rest)"

definition collect_probes ::
  "(string \<Rightarrow> error + response) \<Rightarrow> (pyval \<Rightarrow> error + string) \<Rightarrow> int \<Rightarrow> int
     \<Rightarrow> error + probe list" where
  "collect_probes http strftime_ts start_id end_id =
     collect_loop http strftime_ts [] [start_id..end_id]"

subsection \<open>A sample of the network\<close>

text \<open>
  A network to run the fetcher on: probe 1 answers 200 with a body in the shape of the
  service's replies (no IPv4 address and no ASN, both \<^verbatim>\<open>null\<close>), every other probe
  answers 404. \<open>example_strftime\<close> tabulates the library's rendering at the one timestamp
  of the body: 1577833200 is 2020-01-01 00:00:00 in Europe/Paris.
\<close>

definition example_body :: pyval where
  "example_body =
     PDict [(''id'', PInt 1), (''address_v4'', PNone), (''asn_v4'', PNone),
            (''country_code'', PStr ''NL''),
            (''geometry'', PDict [(''type'', PStr ''Point''),
                                  (''coordinates'', PList [PFloat (1959 / 400), PFloat (104759 / 2000)])]),
            (''status'', PDict [(''id'', PInt 2), (''name'', PStr ''Disconnected'')]),
            (''first_connected'', PInt 1577833200), (''last_connected'', PNone),
            (''tags'', PList [PDict [(''name'', PStr ''Home''), (''slug'', PStr ''home'')],
                              PDict [(''name'', PStr ''Cable''), (''slug'', PStr ''cable'')]])]"

definition example_http :: "string \<Rightarrow> error + response" where
  "example_http url =
     (if url = ''https://atlas.ripe.net/api/v2/probes/1'' then
        Inr \<lparr>status_code = 200, json = Inr example_body\<rparr>
      else Inr \<lparr>status_code = 404, json = Inr (PDict [(''detail'', PStr ''Not found.'')])\<rparr>)"

definition example_strftime :: "pyval \<Rightarrow> error + string" where
  "example_strftime ts =
     (if ts = PInt 1577833200 then Inr ''2020-01-01 00:00:00'' else Inl OverflowError)"

definition example_record :: probe where
  "example_record =
     [(''ID'', PInt 1), (''IPv4'', PNone), (''ASN'', PNone), (''Pays'', PStr ''NL''),
      (''Longitude'', PFloat (1959 / 400)), (''Latitude'', PFloat (104759 / 2000)),
      (''Status'', PStr ''Disconnected''), (''First Connected'', PStr ''2020-01-01 00:00:00''),
      (''Last Connected'', PStr ''N/A''), (''Tags'', PStr ''Home, Cable'')]"

text \<open>
  A second reply: a probe whose \<^verbatim>\<open>first_connected\<close> lies in the year 36.
  \<open>early_strftime\<close> tabulates the rendering at that timestamp: the C library writes a
  year below 1000 without padding, and \<^verbatim>\<open>strptime\<close> with \<^verbatim>\<open>%Y\<close> wants four digits,
  so the filter cannot parse what the fetcher wrote.
\<close>

definition early_body :: pyval where
  "early_body =
     PDict [(''id'', PInt 36), (''country_code'', PStr ''US''),
            (''status'', PDict [(''id'', PInt 1), (''name'', PStr ''Connected'')]),
            (''first_connected'', PInt (- 61000000000))]"

definition early_strftime :: "pyval \<Rightarrow> error + string" where
  "early_strftime ts =
     (if ts = PInt (- 61000000000) then Inr ''36-12-26 11:42:20'' else Inl OverflowError)"

definition early_record :: probe where
  "early_record =
     [(''ID'', PInt 36), (''IPv4'', PStr ''N/A''), (''ASN'', PStr ''N/A''), (''Pays'', PStr ''US''),
      (''Longitude'', PStr ''N/A''), (''Latitude'', PStr ''N/A''),
      (''Status'', PStr ''Connected''), (''First Connected'', PStr ''36-12-26 11:42:20''),
      (''Last Connected'', PStr ''N/A''), (''Tags'', PStr ''N/A'')]"

section \<open>The exporter\<close>

subsection \<open>The output filename\<close>

text \<open>
  \<^verbatim>\<open>os.path.splitext\<close> of the standard library, in its POSIX form (separator \<^verbatim>\<open>/\<close>, no
  alternative separator): the extension starts at the last dot of the last path
  component, leading dots of that component apart. \<open>rfind\<close> is \<^verbatim>\<open>str.rfind\<close>, \<open>-1\<close>
  when the character does not occur; \<open>splitext_scan\<close> is the library's \<^verbatim>\<open>while\<close> loop.
\<close>

fun rfind :: "char \<Rightarrow> string \<Rightarrow> int" where
  "rfind c [] = - 1"
| "rfind c (x # xs) =
     (let r = rfind c xs in if 0 \<le> r then r + 1 else if x = c then 0 else - 1)"

function splitext_scan :: "string \<Rightarrow> nat \<Rightarrow> nat \<Rightarrow> string \<times> string" where
  "splitext_scan p filenameIndex dotIndex =
     (if filenameIndex < dotIndex then
        (if p ! filenameIndex \<noteq> CHR ''.'' then (take dotIndex p, drop dotIndex p)
         else splitext_scan p (filenameIndex + 1) dotIndex)
      else (p, []))"
  by pat_completeness auto
termination
  by (relation "measure (\<lambda>(p, filenameIndex, dotIndex). dotIndex - filenameIndex)") auto

declare splitext_scan.simps [simp del]

definition splitext :: "string \<Rightarrow> string \<times> string" where
  "splitext p =
     (let sepIndex = rfind CHR ''/'' p; dotIndex = rfind CHR ''.'' p
      in if dotIndex > sepIndex then splitext_scan p (nat (sepIndex + 1)) (nat dotIndex)
         else (p, []))"

text \<open>\<^verbatim>\<open>get_output_filename(base_name, output_format)\<close>.\<close>

definition get_output_filename :: "string \<Rightarrow> string \<Rightarrow> string" where
  "get_output_filename base_name output_format =
     (let ext = (case map_of [(''csv'', ''.csv''), (''json'', ''.json''), (''txt'', ''.txt'')]
                        output_format of
                   None \<Rightarrow> ''.csv''
                 | Some e \<Rightarrow> e)
      in fst (splitext base_name) @ ext)"


subsection \<open>Files and the console\<close>

text \<open>
  What \<^verbatim>\<open>export_data\<close> does to the outside: the files, each a sequence of the writes
  made to it, and the lines printed. A value written through an f-string, the CSV writer
  or \<^verbatim>\<open>json.dump\<close> stays a value: how the library renders it is not the program's.
  \<open>writable\<close> tells for which names \<^verbatim>\<open>open(name, "w")\<close> succeeds.
\<close>

datatype piece = Lit string | Fmt pyval

datatype chunk =
    CsvHeader "string list"
  | CsvRow "pyval list"
  | JsonDump "probe list"
  | TxtWrite "piece list"

record world =
  fs :: "string \<Rightarrow> chunk list option"
  stdout :: "string list"
  writable :: "string \<Rightarrow> bool"

text \<open>A world with no file, nothing printed, and every name writable.\<close>

definition empty_world :: world where
  "empty_world = \<lparr>fs = (\<lambda>name. None), stdout = [], writable = (\<lambda>name. True)\<rparr>"

text \<open>
  The two messages, as the UTF-8 bytes of the source's string literals; the console is
  taken to accept them.
\<close>

definition msg_nothing :: string where
  "msg_nothing =
     [CHR 0xE2, CHR 0x9D, CHR 0x8C] @ '' Aucune donn'' @ [CHR 0xC3, CHR 0xA9] @ ''e ''
       @ [CHR 0xC3, CHR 0xA0] @ '' exporter.''"

definition msg_success :: "string \<Rightarrow> string" where
  "msg_success filename =
     [CHR 0xE2, CHR 0x9C, CHR 0x85] @ '' Export'' @ [CHR 0xC3, CHR 0xA9] @ '' avec succ''
       @ [CHR 0xC3, CHR 0xA8] @ ''s dans '' @ filename"

definition print :: "string \<Rightarrow> world \<Rightarrow> world" where
  "print line w = w\<lparr>stdout := stdout w @ [line]\<rparr>"

text \<open>
  The writes of one \<^verbatim>\<open>with open(...)\<close> block, in order: the first exception stops them
  and what was written before it stays in the file.
\<close>

fun run_writes :: "(error + chunk) list \<Rightarrow> chunk list \<Rightarrow> error option \<times> chunk list" where
  "run_writes [] written = (None, written)"
| "run_writes (Inl e # rest) written = (Some e, written)"
| "run_writes (Inr c # rest) written = run_writes rest (written @ [c])"

definition write_file :: "string \<Rightarrow> (error + chunk) list \<Rightarrow> world \<Rightarrow> error option \<times> world" where
  "write_file filename writes w =
     (if writable w filename then
        (let (err, written) = run_writes writes []
         in (err, w\<lparr>fs := (fs w)(filename \<mapsto> written)\<rparr>))
      else (Some OSError, w))"

subsection \<open>The three formats\<close>

text \<open>
  CSV: \<^verbatim>\<open>csv.DictWriter(file, fieldnames=keys)\<close> with the keys of the first record. A row
  with a key outside \<open>keys\<close> raises \<open>ValueError\<close>; a key it lacks is written as the empty
  string.
\<close>

definition csv_row :: "string list \<Rightarrow> probe \<Rightarrow> error + chunk" where
  "csv_row keys rowdict =
     (let wrong_fields = filter (\<lambda>k. k \<notin> set keys) (map fst rowdict)
      in if wrong_fields \<noteq> [] then Inl ValueError
         else Inr (CsvRow (map (\<lambda>k. case map_of rowdict k of None \<Rightarrow> PStr [] | Some v \<Rightarrow> v) keys)))"

definition csv_writes :: "probe \<Rightarrow> probe list \<Rightarrow> (error + chunk) list" where
  "csv_writes first probes =
     (let keys = map fst first in Inr (CsvHeader keys) # map (csv_row keys) probes)"

text \<open>TXT: the ten \<^verbatim>\<open>file.write\<close> calls per record; \<^verbatim>\<open>probe[key]\<close> may raise \<open>KeyError\<close>.\<close>

definition txt_field :: "string \<Rightarrow> string \<Rightarrow> probe \<Rightarrow> error + chunk" where
  "txt_field label key probe =
     bind_err (getitem probe key) (\<lambda>v. Inr (TxtWrite [Lit label, Fmt v, Lit [CHR 0x0A]]))"

definition txt_writes :: "probe \<Rightarrow> (error + chunk) list" where
  "txt_writes probe =
     [txt_field ''ID: '' ''ID'' probe,
      txt_field ''IPv4: '' ''IPv4'' probe,
      txt_field ''ASN: '' ''ASN'' probe,
      txt_field ''Pays: '' ''Pays'' probe,
      bind_err (getitem probe ''Longitude'') (\<lambda>lon.
        bind_err (getitem probe ''Latitude'') (\<lambda>lat.
          Inr (TxtWrite [Lit ''Longitude: '', Fmt lon, Lit '', Latitude: '', Fmt lat,
                         Lit [CHR 0x0A]]))),
      txt_field ''Status: '' ''Status'' probe,
      txt_field ''First Connected: '' ''First Connected'' probe,
      txt_field ''Last Connected: '' ''Last Connected'' probe,
      txt_field ''Tags: '' ''Tags'' probe,
      Inr (TxtWrite [Lit (replicate 40 CHR ''-'' @ [CHR 0x0A])])]"

text \<open>
  \<^verbatim>\<open>export_data(probes, filename, output_format)\<close>: the result is the exception raised, if
  any, and the world after the call.
\<close>

definition export_data :: "probe list \<Rightarrow> string \<Rightarrow> string \<Rightarrow> world \<Rightarrow> error option \<times> world" where
  "export_data probes filename output_format w =
     (case probes of
        [] \<Rightarrow> (None, print msg_nothing w)
      | first # others \<Rightarrow>
          (let (err, w') =
             (if output_format = ''csv'' then write_file filename (csv_writes first probes) w
              else if output_format = ''json'' then write_file filename [Inr (JsonDump probes)] w
              else if output_format = ''txt'' then
                write_file filename (concat (map txt_writes probes)) w
              else (None, w))
           in case err of
                Some e \<Rightarrow> (Some e, w')
              | None \<Rightarrow> (None, print (msg_success filename) w')))"

section \<open>Properties of the filter\<close>

lemma keep_probe_unset [simp]: "keep_probe P None None None None p = Inr True"
  by (simp add: keep_probe_def skip_country_def skip_connected_def skip_date_def bind_err_def)

lemma keep_probe_empty_country [simp]: "keep_probe P (Some []) None None None p = Inr True"
  by (simp add: keep_probe_def skip_country_def skip_connected_def skip_date_def bind_err_def)

lemma filter_loop_unset: "filter_loop P None None None None acc xs = Inr (acc @ xs)"
  by (induction xs arbitrary: acc) simp_all

lemma filter_loop_empty_country: "filter_loop P (Some []) None None None acc xs = Inr (acc @ xs)"
  by (induction xs arbitrary: acc) simp_all

text \<open>
  C9. With every criterion unset (no country, or the empty country string, which Python
  takes as false; \<open>connected\<close> unset; no date threshold) the filter returns the input list
  itself, element for element and in order, and raises nothing.
\<close>

theorem filter_probes_no_criteria_identity:
  "filter_probes P xs None None None None = Inr xs
   \<and> filter_probes P xs (Some []) None None None = Inr xs"
  by (simp add: filter_probes_def filter_loop_unset filter_loop_empty_country)

lemma filter_loop_Inr_iff:
  "filter_loop P c k f l acc xs = Inr ys \<longleftrightarrow>
     (\<forall>p\<in>set xs. \<exists>b. keep_probe P c k f l p = Inr b)
     \<and> ys = acc @ filter (\<lambda>p. keep_probe P c k f l p = Inr True) xs"
proof (induction xs arbitrary: acc)
  case Nil
  then show ?case by auto
next
  case (Cons p xs)
  show ?case
  proof (cases "keep_probe P c k f l p")
    case (Inl e)
    then show ?thesis by simp
  next
    case (Inr b)
    then show ?thesis using Cons.IH by (cases b) auto
  qed
qed

lemma filter_probes_Inr_iff:
  "filter_probes P xs c k f l = Inr ys \<longleftrightarrow>
     (\<forall>p\<in>set xs. \<exists>b. keep_probe P c k f l p = Inr b)
     \<and> ys = filter (\<lambda>p. keep_probe P c k f l p = Inr True) xs"
  by (simp add: filter_probes_def filter_loop_Inr_iff)

lemma filter_probes_member:
  "filter_probes P xs c k f l = Inr ys \<Longrightarrow> p \<in> set ys \<Longrightarrow>
     p \<in> set xs \<and> keep_probe P c k f l p = Inr True"
  by (auto simp: filter_probes_Inr_iff)

lemma keep_probe_True_iff:
  "keep_probe P c k f l p = Inr True \<longleftrightarrow>
     skip_country c p = Inr False \<and> skip_connected k p = Inr False
     \<and> skip_date P f ''First Connected'' p = Inr False
     \<and> skip_date P l ''Last Connected'' p = Inr False"
  by (auto simp: keep_probe_def bind_err_def split: sum.splits if_splits)

lemma skip_unset:
  "skip_country None p = Inr False" "skip_connected None p = Inr False"
  "skip_date P None key p = Inr False"
  by (simp_all add: skip_country_def skip_connected_def skip_date_def)

lemma skip_date_False_iff:
  "skip_date P (Some t) key p = Inr False \<longleftrightarrow> passes_date P t key p"
  by (auto simp: passes_date_def skip_date_def bind_err_def getitem_def
      split: option.splits pyval.splits)

lemma skip_date_total:
  "passes_date P t key p \<or> (\<exists>r. skip_date P (Some t) key p = r \<and> r \<noteq> Inr False)"
  by (auto simp: skip_date_False_iff)

lemma skip_connected_False_iff:
  "skip_connected (Some b) p = Inr False \<longleftrightarrow>
     (\<exists>v. map_of p ''Status'' = Some v \<and> (v = PStr ''Connected'') = b)"
  by (auto simp: skip_connected_def bind_err_def getitem_def split: option.splits)

lemma skip_date_returns: "date_ok P key p \<Longrightarrow> \<exists>b. skip_date P after key p = Inr b"
  by (auto simp: date_ok_def skip_date_def bind_err_def getitem_def
      split: option.splits pyval.splits)

lemma skip_country_returns:
  "map_of p ''Pays'' \<noteq> None \<Longrightarrow> \<exists>b. skip_country c p = Inr b"
  by (cases c) (auto simp: skip_country_def bind_err_def getitem_def)

lemma skip_connected_returns:
  "map_of p ''Status'' \<noteq> None \<Longrightarrow> \<exists>b. skip_connected k p = Inr b"
  by (cases k) (auto simp: skip_connected_def bind_err_def getitem_def)

lemma keep_probe_returns:
  assumes "well_formed P p"
  shows "\<exists>b. keep_probe P c k f l p = Inr b"
proof -
  from assms obtain b1 where 1: "skip_country c p = Inr b1"
    using skip_country_returns[of p c] by (auto simp: well_formed_def)
  from assms obtain b2 where 2: "skip_connected k p = Inr b2"
    using skip_connected_returns[of p k] by (auto simp: well_formed_def)
  from assms obtain b3 where 3: "skip_date P f ''First Connected'' p = Inr b3"
    using skip_date_returns[of P "''First Connected''" p f] by (auto simp: well_formed_def)
  from assms obtain b4 where 4: "skip_date P l ''Last Connected'' p = Inr b4"
    using skip_date_returns[of P "''Last Connected''" p l] by (auto simp: well_formed_def)
  show ?thesis by (auto simp: keep_probe_def bind_err_def 1 2 3 4)
qed

lemma filter_probes_returns:
  assumes "list_all (well_formed P) xs"
  shows "filter_probes P xs c k f l = Inr (filter (\<lambda>p. keep_probe P c k f l p = Inr True) xs)"
proof -
  have "\<forall>p\<in>set xs. \<exists>b. keep_probe P c k f l p = Inr b"
    using assms keep_probe_returns by (auto simp: list_all_iff)
  then show ?thesis by (simp add: filter_probes_Inr_iff)
qed

lemma strptime_padded_2020:
  "strptime_padded ''2020-01-01 00:00:00''
     = Some \<lparr>year = 2020, month = 1, day = 1, hour = 0, minute = 0, second = 0\<rparr>"
  by (simp add: strptime_padded_def digit_val_def days_in_month_def leap_year_def)

lemma scenario_probes_well_formed:
  "list_all (well_formed strptime_padded) [scenario_probe_1, scenario_probe_2]"
  by (simp add: well_formed_def date_ok_def scenario_probe_1_def scenario_probe_2_def
      strptime_padded_2020)

lemmas filter_eval = filter_probes_def keep_probe_def skip_country_def skip_connected_def
  skip_date_def bind_err_def getitem_def scenario_probe_1_def scenario_probe_2_def
  date_2021_01_01_def dt_less_def strptime_padded_2020

lemma scenario_1:
  "filter_probes P [scenario_probe_1, scenario_probe_2] (Some ''FR'') None None None
     = Inr [scenario_probe_1]"
  by (simp add: filter_eval)

lemma scenario_2_true:
  "filter_probes P [scenario_probe_1, scenario_probe_2] None (Some True) None None
     = Inr [scenario_probe_1]"
  by (simp add: filter_eval)

lemma scenario_2_false:
  "filter_probes P [scenario_probe_1, scenario_probe_2] None (Some False) None None
     = Inr [scenario_probe_2]"
  by (simp add: filter_eval)

lemma scenario_3:
  "filter_probes strptime_padded [scenario_probe_1, scenario_probe_2] None None
     (Some date_2021_01_01) None = Inr [scenario_probe_2]"
  by (simp add: filter_eval)





lemma passes_date_marker:
  "map_of p key = Some (PStr ''N/A'') \<Longrightarrow> passes_date P t key p"
  by (simp add: passes_date_def)

lemma passes_date_earlier:
  "map_of p key = Some (PStr s) \<Longrightarrow> s \<noteq> ''N/A'' \<Longrightarrow> P s = Some d \<Longrightarrow> dt_less d t \<Longrightarrow>
     \<not> passes_date P t key p"
  by (simp add: passes_date_def)

lemma either_None: "either None x = x" "either x None = x"
  by (simp_all add: either_def split: option.splits)

lemma keep_union:
  assumes "cA = None \<or> cB = None" "kA = None \<or> kB = None"
    and "fA = None \<or> fB = None" "lA = None \<or> lB = None"
    and "keep_probe P cA kA fA lA p = Inr a" "keep_probe P cB kB fB lB p = Inr b"
  shows "keep_probe P (either cA cB) (either kA kB) (either fA fB) (either lA lB) p
           = Inr (a \<and> b)"
  using assms
  by (elim disjE)
     (auto simp: keep_probe_def skip_unset either_None bind_err_def split: sum.splits if_splits)

lemma inter_filter:
  "filter (\<lambda>p. p \<in> set (filter B xs)) (filter A xs) = filter (\<lambda>p. A p \<and> B p) xs"
  unfolding filter_filter by (rule filter_cong) auto

lemma scenario_last:
  "filter_probes strptime_padded [scenario_probe_1, scenario_probe_2] None None None
     (Some date_2021_01_01) = Inr [scenario_probe_1, scenario_probe_2]"
  by (simp add: filter_eval)

lemma scenario_probes_distinct: "scenario_probe_1 \<noteq> scenario_probe_2"
  by (simp add: scenario_probe_1_def scenario_probe_2_def)

lemma connected_passes:
  "filter_probes P xs c (Some b) f l = Inr ys \<Longrightarrow> p \<in> set ys \<Longrightarrow>
     \<exists>v. map_of p ''Status'' = Some v \<and> (v = PStr ''Connected'') = b"
  by (auto dest!: filter_probes_member simp: keep_probe_True_iff skip_connected_False_iff)

lemma keep_connected_only:
  "keep_probe P None (Some b) None None p = Inr r \<longleftrightarrow> skip_connected (Some b) p = Inr (\<not> r)"
  by (auto simp: keep_probe_def skip_unset bind_err_def split: sum.splits)

lemma connected_partition:
  assumes T: "filter_probes P xs None (Some True) None None = Inr yt"
    and F: "filter_probes P xs None (Some False) None None = Inr yf"
  shows "set yt \<union> set yf = set xs \<and> set yt \<inter> set yf = {}"
proof -
  have yt: "yt = filter (\<lambda>p. skip_connected (Some True) p = Inr False) xs"
    and ok: "\<forall>p\<in>set xs. \<exists>b. skip_connected (Some True) p = Inr b"
    using T by (auto simp: filter_probes_Inr_iff keep_connected_only intro: filter_cong)
  have yf: "yf = filter (\<lambda>p. skip_connected (Some False) p = Inr False) xs"
    using F by (auto simp: filter_probes_Inr_iff keep_connected_only intro: filter_cong)
  have flip: "skip_connected (Some False) p = Inr False \<longleftrightarrow> skip_connected (Some True) p = Inr True"
    for p by (auto simp: skip_connected_def bind_err_def getitem_def split: option.splits)
  show ?thesis unfolding yt yf flip using ok by auto
qed




lemma early_record_built: "probe_record early_strftime early_body = Inr early_record"
  by (simp add: early_body_def early_record_def early_strftime_def bind_err_def
      probe_record_def coordinates_def py_get_def format_timestamp_def tags_field_def)

lemma strptime_padded_early: "strptime_padded ''36-12-26 11:42:20'' = None"
  by (simp add: strptime_padded_def)

text \<open>
  C2 (as stated, refuted). The claim equates, for every record list, the filter under two
  criteria with the intersection of the two single filters. The loop tests the country
  first and executes \<^verbatim>\<open>continue\<close> before \<^verbatim>\<open>strptime\<close> is reached: on the record of
  the early probe, country FR together with the threshold 2021-01-01 returns \<open>[]\<close>, while
  the threshold alone raises \<open>ValueError\<close>, so there is no second result to intersect.
\<close>

theorem filter_probes_conjunction_counterexample:
  "filter_probes strptime_padded [early_record] (Some ''FR'') None (Some date_2021_01_01) None
      = Inr []
   \<and> filter_probes strptime_padded [early_record] (Some ''FR'') None None None = Inr []
   \<and> filter_probes strptime_padded [early_record] None None (Some date_2021_01_01) None
      = Inl ValueError"
  by (simp add: filter_probes_def keep_probe_def skip_country_def skip_connected_def
      skip_date_def bind_err_def getitem_def early_record_def strptime_padded_early)

text \<open>
  C2 (amended). Two sets of criteria A and B that supply different criteria (no criterion
  is set in both): whenever filtering with A alone and filtering with B alone both return,
  filtering with A and B together returns the records of the first result that also occur
  in the second, in input order. Both do return on every list of records that have the
  keys the filter reads and date fields that are the marker or parse
  (\<open>filter_probes_returns\<close>).
\<close>

theorem filter_probes_conjunction:
  assumes "cA = None \<or> cB = None" and "kA = None \<or> kB = None"
    and "fA = None \<or> fB = None" and "lA = None \<or> lB = None"
    and A: "filter_probes P xs cA kA fA lA = Inr ya"
    and B: "filter_probes P xs cB kB fB lB = Inr yb"
  shows "filter_probes P xs (either cA cB) (either kA kB) (either fA fB) (either lA lB)
           = Inr (filter (\<lambda>p. p \<in> set yb) ya)"
proof -
  let ?kA = "keep_probe P cA kA fA lA" and ?kB = "keep_probe P cB kB fB lB"
  let ?kU = "keep_probe P (either cA cB) (either kA kB) (either fA fB) (either lA lB)"
  from A have ya: "ya = filter (\<lambda>p. ?kA p = Inr True) xs"
    and okA: "\<forall>p\<in>set xs. \<exists>b. ?kA p = Inr b"
    unfolding filter_probes_Inr_iff by simp_all
  from B have yb: "yb = filter (\<lambda>p. ?kB p = Inr True) xs"
    and okB: "\<forall>p\<in>set xs. \<exists>b. ?kB p = Inr b"
    unfolding filter_probes_Inr_iff by simp_all
  have U: "?kU p = Inr (?kA p = Inr True \<and> ?kB p = Inr True)" if "p \<in> set xs" for p
  proof -
    from okA that obtain a where a: "?kA p = Inr a" by blast
    from okB that obtain b where b: "?kB p = Inr b" by blast
    have "?kU p = Inr (a \<and> b)" by (rule keep_union[OF assms(1-4) a b])
    then show ?thesis unfolding a b by simp
  qed
  have ok: "\<forall>p\<in>set xs. \<exists>b. ?kU p = Inr b"
  proof
    fix p assume "p \<in> set xs"
    then show "\<exists>b. ?kU p = Inr b" by (intro exI) (rule U)
  qed
  have "filter (\<lambda>p. ?kU p = Inr True) xs
          = filter (\<lambda>p. ?kA p = Inr True \<and> ?kB p = Inr True) xs"
  proof (rule filter_cong[OF refl])
    fix p assume "p \<in> set xs"
    from U[OF this] show "(?kU p = Inr True) = (?kA p = Inr True \<and> ?kB p = Inr True)"
      by simp
  qed
  also have "\<dots> = filter (\<lambda>p. p \<in> set yb) ya"
    unfolding ya yb by (rule inter_filter[symmetric])
  finally have eq: "filter (\<lambda>p. p \<in> set yb) ya = filter (\<lambda>p. ?kU p = Inr True) xs"
    by (rule sym)
  show ?thesis unfolding filter_probes_Inr_iff using ok eq by (intro conjI)
qed

text \<open>C2 at the scenario records: country FR together with the threshold 2021-01-01.\<close>

theorem filter_probes_conjunction_witness:
  "filter_probes strptime_padded [scenario_probe_1, scenario_probe_2] (Some ''FR'') None None None
      = Inr [scenario_probe_1]
   \<and> filter_probes strptime_padded [scenario_probe_1, scenario_probe_2] None None
        (Some date_2021_01_01) None = Inr [scenario_probe_2]
   \<and> filter_probes strptime_padded [scenario_probe_1, scenario_probe_2] (Some ''FR'') None
        (Some date_2021_01_01) None = Inr []"
proof -
  have A: "filter_probes strptime_padded [scenario_probe_1, scenario_probe_2] (Some ''FR'')
      None None None = Inr [scenario_probe_1]"
    by (rule scenario_1)
  have B: "filter_probes strptime_padded [scenario_probe_1, scenario_probe_2] None None
        (Some date_2021_01_01) None = Inr [scenario_probe_2]"
    by (rule scenario_3)
  have "filter_probes strptime_padded [scenario_probe_1, scenario_probe_2]
          (either (Some ''FR'') None) (either None None)
          (either None (Some date_2021_01_01)) (either None None)
        = Inr (filter (\<lambda>p. p \<in> set [scenario_probe_2]) [scenario_probe_1])"
    by (rule filter_probes_conjunction[OF _ _ _ _ A B]) simp_all
  then have "filter_probes strptime_padded [scenario_probe_1, scenario_probe_2] (Some ''FR'')
      None (Some date_2021_01_01) None = Inr []"
    by (simp add: either_def scenario_probes_distinct)
  with A B show ?thesis by (intro conjI)
qed

text \<open>
  C7. Filtering the result of the filter again, with the same criteria, returns that
  result unchanged.
\<close>

theorem filter_probes_idempotent:
  "filter_probes P xs c k f l = Inr ys \<Longrightarrow> filter_probes P ys c k f l = Inr ys"
proof -
  assume "filter_probes P xs c k f l = Inr ys"
  then have ys: "ys = filter (\<lambda>p. keep_probe P c k f l p = Inr True) xs"
    by (simp add: filter_probes_Inr_iff)
  have "\<forall>p\<in>set ys. keep_probe P c k f l p = Inr True" by (simp add: ys)
  then have "filter (\<lambda>p. keep_probe P c k f l p = Inr True) ys = ys"
    and "\<forall>p\<in>set ys. \<exists>b. keep_probe P c k f l p = Inr b"
    by (simp add: filter_id_conv, blast)
  then show ?thesis by (simp add: filter_probes_Inr_iff)
qed

text \<open>C7 at the scenario records with the threshold 2021-01-01.\<close>

theorem filter_probes_idempotent_witness:
  "filter_probes strptime_padded [scenario_probe_1, scenario_probe_2] None None
      (Some date_2021_01_01) None = Inr [scenario_probe_2]
   \<and> filter_probes strptime_padded [scenario_probe_2] None None
      (Some date_2021_01_01) None = Inr [scenario_probe_2]"
  using filter_probes_idempotent [OF scenario_3] scenario_3 by (intro conjI)

text \<open>
  C8. With \<open>connected\<close> supplied as true every record of the result has \<^verbatim>\<open>Status\<close> equal to
  \<^verbatim>\<open>"Connected"\<close>; supplied as false, every record of the result has a \<^verbatim>\<open>Status\<close> different
  from \<^verbatim>\<open>"Connected"\<close>. No record passes both or neither: when \<open>connected\<close> is the only
  criterion the two results split the input. On the records of scenario 2, true gives the
  record with id 1 and false the record with id 2.
\<close>

theorem filter_probes_connected:
  "(filter_probes P xs c (Some True) f l = Inr ys \<longrightarrow>
      (\<forall>p\<in>set ys. map_of p ''Status'' = Some (PStr ''Connected'')))
   \<and> (filter_probes P xs c (Some False) f l = Inr zs \<longrightarrow>
      (\<forall>p\<in>set zs. \<exists>v. map_of p ''Status'' = Some v \<and> v \<noteq> PStr ''Connected''))
   \<and> (filter_probes P xs None (Some True) None None = Inr yt
        \<and> filter_probes P xs None (Some False) None None = Inr yf \<longrightarrow>
      set yt \<union> set yf = set xs \<and> set yt \<inter> set yf = {})
   \<and> filter_probes P [scenario_probe_1, scenario_probe_2] None (Some True) None None
        = Inr [scenario_probe_1]
   \<and> filter_probes P [scenario_probe_1, scenario_probe_2] None (Some False) None None
        = Inr [scenario_probe_2]"
proof (intro conjI impI ballI)
  show "map_of p ''Status'' = Some (PStr ''Connected'')"
    if "filter_probes P xs c (Some True) f l = Inr ys" "p \<in> set ys" for p
    using connected_passes[OF that] by simp
  show "\<exists>v. map_of p ''Status'' = Some v \<and> v \<noteq> PStr ''Connected''"
    if "filter_probes P xs c (Some False) f l = Inr zs" "p \<in> set zs" for p
    using connected_passes[OF that] by simp
  assume "filter_probes P xs None (Some True) None None = Inr yt
        \<and> filter_probes P xs None (Some False) None None = Inr yf"
  then have "set yt \<union> set yf = set xs \<and> set yt \<inter> set yf = {}"
    using connected_partition by blast
  then show "set yt \<union> set yf = set xs" "set yt \<inter> set yf = {}" by simp_all
qed (rule scenario_2_true scenario_2_false)+

text \<open>C8 at the scenario records.\<close>

theorem filter_probes_connected_witness:
  "filter_probes strptime_padded [scenario_probe_1, scenario_probe_2] None (Some True) None None
      = Inr [scenario_probe_1]
   \<and> map_of scenario_probe_1 ''Status'' = Some (PStr ''Connected'')
   \<and> filter_probes strptime_padded [scenario_probe_1, scenario_probe_2] None (Some False)
        None None = Inr [scenario_probe_2]
   \<and> (\<exists>v. map_of scenario_probe_2 ''Status'' = Some v \<and> v \<noteq> PStr ''Connected'')
   \<and> set [scenario_probe_1] \<union> set [scenario_probe_2]
        = set [scenario_probe_1, scenario_probe_2]
   \<and> set [scenario_probe_1] \<inter> set [scenario_probe_2] = {}"
proof -
  note T = filter_probes_connected [of strptime_padded "[scenario_probe_1, scenario_probe_2]"
      None None None "[scenario_probe_1]" "[scenario_probe_2]" "[scenario_probe_1]"
      "[scenario_probe_2]"]
  have t: "filter_probes strptime_padded [scenario_probe_1, scenario_probe_2] None (Some True)
      None None = Inr [scenario_probe_1]"
    by (rule scenario_2_true)
  have f: "filter_probes strptime_padded [scenario_probe_1, scenario_probe_2] None (Some False)
      None None = Inr [scenario_probe_2]"
    by (rule scenario_2_false)
  note T1 = T[THEN conjunct1, THEN mp, OF t]
  note T2 = T[THEN conjunct2, THEN conjunct1, THEN mp, OF f]
  note T3 = T[THEN conjunct2, THEN conjunct2, THEN conjunct1, THEN mp, OF conjI[OF t f]]
  have s1: "map_of scenario_probe_1 ''Status'' = Some (PStr ''Connected'')"
    using T1 by simp
  have s2: "\<exists>v. map_of scenario_probe_2 ''Status'' = Some v \<and> v \<noteq> PStr ''Connected''"
    using T2 by simp
  from t s1 f s2 T3[THEN conjunct1] T3[THEN conjunct2] show ?thesis by (intro conjI)
qed

section \<open>Properties of the fetcher and of the driver's loop\<close>

lemma API_URL_1: "API_URL 1 = ''https://atlas.ripe.net/api/v2/probes/1''"
  by code_simp

lemma API_URL_2: "API_URL 2 = ''https://atlas.ripe.net/api/v2/probes/2''"
  by code_simp

lemma get_probe_info_not_200:
  "http (API_URL probe_id) = Inr r \<Longrightarrow> status_code r \<noteq> 200 \<Longrightarrow>
     get_probe_info http strftime_ts probe_id = Inr None"
  by (simp add: get_probe_info_def bind_err_def)

lemma collect_loop_append:
  "collect_loop http f probes (xs @ ys)
     = bind_err (collect_loop http f probes xs) (\<lambda>ps. collect_loop http f ps ys)"
proof (induction xs arbitrary: probes)
  case Nil
  show ?case by (simp add: bind_err_def)
next
  case (Cons x xs)
  show ?case
    by (cases "get_probe_info http f x") (simp_all add: bind_err_def Cons.IH)
qed

lemma collect_loop_skip:
  "get_probe_info http f probe_id = Inr None \<Longrightarrow>
     collect_loop http f probes (probe_id # rest) = collect_loop http f probes rest"
  by (simp add: bind_err_def)

text \<open>
  C3. When the reply to the request for a probe id has a status other than 200,
  \<^verbatim>\<open>get_probe_info\<close> returns \<^verbatim>\<open>None\<close> and raises nothing, and the loop of \<^verbatim>\<open>main\<close>
  accumulates exactly what it accumulates on the ids without that one: the id adds no
  record, wherever it stands in the list of ids, and in particular in the range from
  \<^verbatim>\<open>start_id\<close> to \<^verbatim>\<open>end_id\<close>.
\<close>

theorem get_probe_info_non_200_skipped:
  assumes "http (API_URL probe_id) = Inr r" and "status_code r \<noteq> 200"
  shows "get_probe_info http strftime_ts probe_id = Inr None
    \<and> collect_loop http strftime_ts probes (before @ probe_id # after)
        = collect_loop http strftime_ts probes (before @ after)
    \<and> (start_id \<le> probe_id \<and> probe_id \<le> end_id \<longrightarrow>
         collect_probes http strftime_ts start_id end_id
           = collect_loop http strftime_ts [] ([start_id..probe_id - 1] @ [probe_id + 1..end_id]))"
proof -
  have none: "get_probe_info http strftime_ts probe_id = Inr None"
    using assms by (rule get_probe_info_not_200)
  have skip: "collect_loop http strftime_ts ps (xs @ probe_id # ys)
        = collect_loop http strftime_ts ps (xs @ ys)" for ps xs ys
    by (simp only: collect_loop_append[of _ _ _ xs] collect_loop_skip[OF none])
  have range: "collect_probes http strftime_ts start_id end_id
           = collect_loop http strftime_ts [] ([start_id..probe_id - 1] @ [probe_id + 1..end_id])"
    if "start_id \<le> probe_id \<and> probe_id \<le> end_id"
  proof -
    from that have "[start_id..end_id] = [start_id..probe_id - 1] @ probe_id # [probe_id + 1..end_id]"
      by (intro upto_split3) simp_all
    then show ?thesis by (simp only: collect_probes_def skip)
  qed
  from none skip range show ?thesis by (intro conjI impI)
qed

lemma probe_record_example: "probe_record example_strftime example_body = Inr example_record"
  by (simp add: example_body_def example_record_def example_strftime_def bind_err_def
      probe_record_def coordinates_def py_get_def format_timestamp_def tags_field_def
      py_contains_def py_subscript_def getitem_def unpack2_def py_iter_def py_join_def)

lemma get_probe_info_example:
  "get_probe_info example_http example_strftime 1 = Inr (Some example_record)"
  by (simp add: get_probe_info_def API_URL_1 example_http_def bind_err_def probe_record_example)

lemma example_404:
  "example_http (API_URL 2) = Inr \<lparr>status_code = 404, json = Inr (PDict [(''detail'', PStr ''Not found.'')])\<rparr>"
  by (simp add: API_URL_2 example_http_def)

text \<open>C3 on the sample network: probe 2 answers 404, in the range from 1 to 3.\<close>

theorem get_probe_info_non_200_skipped_witness:
  "example_http (API_URL 2)
      = Inr \<lparr>status_code = 404, json = Inr (PDict [(''detail'', PStr ''Not found.'')])\<rparr>
   \<and> get_probe_info example_http example_strftime 2 = Inr None
   \<and> collect_loop example_http example_strftime [] ([1] @ 2 # [3])
        = collect_loop example_http example_strftime [] ([1] @ [3])
   \<and> collect_probes example_http example_strftime 1 3
        = collect_loop example_http example_strftime [] ([1..2 - 1] @ [2 + 1..3])"
proof -
  have ne: "status_code \<lparr>status_code = 404, json = Inr (PDict [(''detail'', PStr ''Not found.'')])\<rparr> \<noteq> 200"
    by simp
  note T = get_probe_info_non_200_skipped[where http = example_http and probe_id = 2 and strftime_ts = example_strftime
      and r = "\<lparr>status_code = 404, json = Inr (PDict [(''detail'', PStr ''Not found.'')])\<rparr>"
      and probes = "[]" and before = "[1]" and after = "[3]" and start_id = 1 and end_id = 3,
      OF example_404 ne]
  have le: "(1::int) \<le> 2 \<and> (2::int) \<le> 3" by simp
  from example_404 T[THEN conjunct1] T[THEN conjunct2, THEN conjunct1]
    T[THEN conjunct2, THEN conjunct2, THEN mp, OF le]
  show ?thesis by (intro conjI)
qed

text \<open>
  What does hold of the record built from a 200 reply: it has the ten declared keys, in
  the source's order; a key that the reply omits gives the marker; the two timestamps and
  the tags are always strings.
\<close>

lemma probe_record_keys:
  "probe_record f data = Inr r \<Longrightarrow>
     map fst r = [''ID'', ''IPv4'', ''ASN'', ''Pays'', ''Longitude'', ''Latitude'', ''Status'',
                  ''First Connected'', ''Last Connected'', ''Tags'']"
  by (auto simp: probe_record_def bind_err_def split: sum.splits prod.splits)

lemma py_get_omitted: "map_of kvs key = None \<Longrightarrow> py_get (PDict kvs) key d = Inr d"
  by (simp add: py_get_def)

lemma format_timestamp_str: "format_timestamp f ts = Inr v \<Longrightarrow> \<exists>s. v = PStr s"
  by (auto simp: format_timestamp_def bind_err_def split: if_splits sum.splits)

lemma tags_field_str: "tags_field data = Inr v \<Longrightarrow> \<exists>s. v = PStr s"
  by (auto simp: tags_field_def py_join_def bind_err_def split: if_splits sum.splits)

lemma probe_record_omitted:
  assumes "probe_record f (PDict kvs) = Inr r"
  shows "map_of kvs ''id'' = None \<Longrightarrow> map_of r ''ID'' = Some (PStr ''N/A'')"
    and "map_of kvs ''address_v4'' = None \<Longrightarrow> map_of r ''IPv4'' = Some (PStr ''N/A'')"
    and "map_of kvs ''asn_v4'' = None \<Longrightarrow> map_of r ''ASN'' = Some (PStr ''N/A'')"
    and "map_of kvs ''country_code'' = None \<Longrightarrow> map_of r ''Pays'' = Some (PStr ''N/A'')"
    and "map_of kvs ''status'' = None \<Longrightarrow> map_of r ''Status'' = Some (PStr ''Unknown'')"
    and "map_of kvs ''first_connected'' = None \<Longrightarrow> map_of r ''First Connected'' = Some (PStr ''N/A'')"
    and "map_of kvs ''last_connected'' = None \<Longrightarrow> map_of r ''Last Connected'' = Some (PStr ''N/A'')"
    and "map_of kvs ''tags'' = None \<Longrightarrow> map_of r ''Tags'' = Some (PStr ''N/A'')"
    and "map_of kvs ''geometry'' = None \<Longrightarrow>
           map_of r ''Longitude'' = Some (PStr ''N/A'') \<and> map_of r ''Latitude'' = Some (PStr ''N/A'')"
  using assms
  by (auto simp: probe_record_def bind_err_def py_get_def format_timestamp_def tags_field_def
      coordinates_def split: sum.splits prod.splits)

lemma probe_record_strings:
  assumes "probe_record f data = Inr r"
  shows "\<exists>s. map_of r ''First Connected'' = Some (PStr s)"
    and "\<exists>s. map_of r ''Last Connected'' = Some (PStr s)"
    and "\<exists>s. map_of r ''Tags'' = Some (PStr s)"
  using assms
  by (auto simp: probe_record_def bind_err_def split: sum.splits prod.splits
      dest!: format_timestamp_str tags_field_str)

lemma probe_record_null_status:
  "probe_record f (PDict [(''id'', PInt 1), (''status'', PNone)]) = Inl AttributeError"
  by (simp add: probe_record_def bind_err_def py_get_def coordinates_def)

text \<open>
  C4 (the code departs from the claim). The claim has every field of the record hold a
  concrete value or an absent-marker, for every 200 reply. A reply that carries a key with
  the value \<^verbatim>\<open>null\<close> is not an omission: \<^verbatim>\<open>data.get("address_v4", "N/A")\<close> returns
  \<^verbatim>\<open>None\<close>, and the record holds \<^verbatim>\<open>None\<close> in that field, which is neither. The sample
  reply of probe 1 has \<^verbatim>\<open>address_v4\<close> and \<^verbatim>\<open>asn_v4\<close> null; its timestamp
  \<^verbatim>\<open>last_connected\<close>, also null, does become \<^verbatim>\<open>"N/A"\<close>, through the test \<^verbatim>\<open>if ts\<close>.
\<close>

theorem get_probe_info_null_fields:
  "get_probe_info example_http example_strftime 1 = Inr (Some example_record)
   \<and> map_of example_record ''IPv4'' = Some PNone
   \<and> map_of example_record ''ASN'' = Some PNone"
  by (simp add: get_probe_info_example) (simp add: example_record_def)

section \<open>Properties of the exporter\<close>

text \<open>
  C5. Exporting the empty collection, in any format and under any name, raises nothing,
  leaves every file as it was and prints the line \<open>msg_nothing\<close>, which differs from
  every success line.
\<close>

theorem export_data_empty:
  "export_data [] filename output_format w = (None, w\<lparr>stdout := stdout w @ [msg_nothing]\<rparr>)
   \<and> fs (snd (export_data [] filename output_format w)) = fs w
   \<and> fst (export_data [] filename output_format w) = None
   \<and> msg_nothing \<noteq> msg_success name"
  by (simp add: export_data_def print_def msg_nothing_def msg_success_def)













text \<open>
  C10. For a non-empty list of records and a format other than \<^verbatim>\<open>csv\<close>, \<^verbatim>\<open>json\<close> and
  \<^verbatim>\<open>txt\<close>, \<^verbatim>\<open>export_data\<close> raises nothing, leaves every file as it was, and still prints
  the success line with the filename it was given; the filename computed for such a format
  ends in \<^verbatim>\<open>.csv\<close>.
\<close>

theorem export_data_unknown_format:
  assumes "probes \<noteq> []" and "output_format \<notin> {''csv'', ''json'', ''txt''}"
  shows "export_data probes filename output_format w
           = (None, w\<lparr>stdout := stdout w @ [msg_success filename]\<rparr>)
    \<and> fs (snd (export_data probes filename output_format w)) = fs w
    \<and> get_output_filename base_name output_format = fst (splitext base_name) @ ''.csv''"
  using assms
  by (cases probes) (simp_all add: export_data_def print_def get_output_filename_def)

text \<open>C10 at one record and the format \<^verbatim>\<open>xml\<close>.\<close>

theorem export_data_unknown_format_witness:
  "export_data [scenario_probe_1] ''out.csv'' ''xml'' empty_world
      = (None, empty_world\<lparr>stdout := stdout empty_world @ [msg_success ''out.csv'']\<rparr>)
   \<and> fs (snd (export_data [scenario_probe_1] ''out.csv'' ''xml'' empty_world)) = fs empty_world
   \<and> get_output_filename ''out'' ''xml'' = fst (splitext ''out'') @ ''.csv''"
proof -
  have ne: "[scenario_probe_1] \<noteq> []" by simp
  have fmt: "''xml'' \<notin> {''csv'', ''json'', ''txt''}" by simp
  show ?thesis by (rule export_data_unknown_format[OF ne fmt])
qed

end
